theory Spec2Isabelle
  imports Main "HOL-Library.Word"
begin

section \<open>Data model of server.go\<close>

text \<open>
  The response envelope \<^verbatim>\<open>types.BizVo\<close> and its code enumeration. The package
  \<^verbatim>\<open>types\<close> is imported by server.go; the three codes are the ones server.go uses
  (\<^verbatim>\<open>types.Success\<close>, \<^verbatim>\<open>types.Failed\<close>, \<^verbatim>\<open>types.NotAuthorized\<close>).
  A field that a Go struct literal leaves out has its zero value: the empty string for
  \<^verbatim>\<open>Message\<close>, nil (here \<open>None\<close>) for \<^verbatim>\<open>Data\<close>.
\<close>

datatype BizCode = Success | Failed | NotAuthorized

record types_BizVo =
  Code :: BizCode
  Message :: string
  Data :: "string option"

text \<open>\<^verbatim>\<open>types.ChatSession{ClientIP, Username, SessionId}\<close>, as LoginHandle builds it.\<close>

record types_ChatSession =
  ClientIP :: string
  Username :: string
  SessionId :: string

text \<open>The two fields of \<^verbatim>\<open>types.Config\<close> that the admission code reads.\<close>

record types_Config =
  EnableAuth :: bool
  AccessKey :: string

text \<open>
  String constants of package \<^verbatim>\<open>types\<close> whose values server.go does not show:
  the session header name, the context key and the generic error message. They are
  parameters of the model.
\<close>

record types_consts =
  TokenName :: string
  SessionKey :: string
  ErrorMsg :: string

text \<open>
  \<^verbatim>\<open>Server\<close>: the configuration and the two process-wide maps. \<^verbatim>\<open>ChatSession\<close> is
  \<^verbatim>\<open>map[string]types.ChatSession\<close>, \<^verbatim>\<open>ApiKeyAccessStat\<close> is \<^verbatim>\<open>map[string]int64\<close>
  (server.go creates it in NewServer and never reads or writes it afterwards).
\<close>

record Server =
  Config :: types_Config
  ChatSession :: "string \<rightharpoonup> types_ChatSession"
  ApiKeyAccessStat :: "string \<rightharpoonup> 64 word"
  DebugMode :: bool

text \<open>
  \<^verbatim>\<open>gin.Context\<close>, as far as the middleware and the login handler use it: the request
  (\<^verbatim>\<open>c.Request.URL.Path\<close>, the headers behind \<^verbatim>\<open>c.GetHeader\<close>, the query parameters behind
  \<^verbatim>\<open>c.Query\<close>, the address \<^verbatim>\<open>c.ClientIP()\<close>, the outcome of decoding the JSON body into
  \<^verbatim>\<open>struct{Token string}\<close>: \<open>None\<close> when \<^verbatim>\<open>Decode\<close> returns an error), the values of the
  cookie session \<^verbatim>\<open>sessions.Default(c)\<close>, the keys stored with \<^verbatim>\<open>c.Set\<close>, and the effects:
  whether \<^verbatim>\<open>c.Abort()\<close> was called, whether \<^verbatim>\<open>c.Next()\<close> ran the remaining handlers,
  and the bodies written with \<^verbatim>\<open>c.JSON\<close> (status and envelope, in order).
\<close>

record Context =
  Path :: string
  Header :: "string \<rightharpoonup> string"
  QueryParams :: "string \<rightharpoonup> string"
  RemoteIP :: string
  DecodedToken :: "string option"
  SessionValues :: "string \<rightharpoonup> string"
  Keys :: "string \<rightharpoonup> string"
  Aborted :: bool
  NextCalled :: bool
  Written :: "(nat \<times> types_BizVo) list"

section \<open>Operations on the context\<close>

text \<open>\<^verbatim>\<open>c.GetHeader(key)\<close>: the header's value, the empty string when it is absent.\<close>

definition ctx_GetHeader :: "Context \<Rightarrow> string \<Rightarrow> string" where
  "ctx_GetHeader c key = (case Header c key of None \<Rightarrow> [] | Some v \<Rightarrow> v)"

text \<open>\<^verbatim>\<open>c.Query(key)\<close>: the parameter's value, the empty string when it is absent.\<close>

definition ctx_Query :: "Context \<Rightarrow> string \<Rightarrow> string" where
  "ctx_Query c key = (case QueryParams c key of None \<Rightarrow> [] | Some v \<Rightarrow> v)"

definition ctx_ClientIP :: "Context \<Rightarrow> string" where
  "ctx_ClientIP c = RemoteIP c"

definition ctx_Next :: "Context \<Rightarrow> Context" where
  "ctx_Next c = c\<lparr>NextCalled := True\<rparr>"

definition ctx_Abort :: "Context \<Rightarrow> Context" where
  "ctx_Abort c = c\<lparr>Aborted := True\<rparr>"

definition ctx_JSON :: "nat \<Rightarrow> types_BizVo \<Rightarrow> Context \<Rightarrow> Context" where
  "ctx_JSON status obj c = c\<lparr>Written := Written c @ [(status, obj)]\<rparr>"

definition ctx_Set :: "string \<Rightarrow> string \<Rightarrow> Context \<Rightarrow> Context" where
  "ctx_Set key v c = c\<lparr>Keys := (Keys c)(key \<mapsto> v)\<rparr>"

text \<open>\<^verbatim>\<open>session.Get(key)\<close> and \<^verbatim>\<open>session.Set(key, val)\<close> on \<^verbatim>\<open>sessions.Default(c)\<close>;
  Go's nil result is \<open>None\<close>.\<close>

definition session_Get :: "Context \<Rightarrow> string \<Rightarrow> string option" where
  "session_Get c key = SessionValues c key"

definition session_Set :: "string \<Rightarrow> string \<Rightarrow> Context \<Rightarrow> Context" where
  "session_Set key v c = c\<lparr>SessionValues := (SessionValues c)(key \<mapsto> v)\<rparr>"

definition StatusOK :: nat where
  "StatusOK = 200"

text \<open>\<^verbatim>\<open>strings.HasPrefix(s, prefix)\<close>.\<close>

fun HasPrefix :: "string \<Rightarrow> string \<Rightarrow> bool" where
  "HasPrefix s [] = True"
| "HasPrefix [] (p # ps) = False"
| "HasPrefix (x # xs) (p # ps) = (x = p \<and> HasPrefix xs ps)"

section \<open>AuthorizeMiddleware\<close>

text \<open>
  The handler returned by \<^verbatim>\<open>AuthorizeMiddleware(s)\<close>, branch by branch. It reads the
  server and changes the context only.
\<close>

definition AuthorizeMiddleware :: "types_consts \<Rightarrow> Server \<Rightarrow> Context \<Rightarrow> Context" where
  "AuthorizeMiddleware t s c =
     (if \<not> EnableAuth (Config s) \<or>
         Path c = ''/api/login'' \<or>
         Path c = ''/api/config/chat-roles/get'' \<or>
         \<not> HasPrefix (Path c) ''/api''
      then ctx_Next c
      else if HasPrefix (Path c) ''/api/config'' then
        (let accessKey = ctx_GetHeader c ''ACCESS_KEY'' in
         if accessKey \<noteq> AccessKey (Config s)
         then ctx_JSON StatusOK
                \<lparr>Code = NotAuthorized, Message = ''No Permissions'', Data = None\<rparr>
                (ctx_Abort c)
         else ctx_Next c)
      else if Path c = ''/api/chat'' then
        (let sessionId = ctx_Query c ''sessionId'' in
         case ChatSession s sessionId of
           Some session \<Rightarrow>
             if ClientIP session = ctx_ClientIP c then ctx_Next c else ctx_Abort c
         | None \<Rightarrow> ctx_Abort c)
      else
        (let sessionId = ctx_GetHeader c (TokenName t);
             userInfo = session_Get c sessionId
         in case userInfo of
              Some u \<Rightarrow> ctx_Next (ctx_Set (SessionKey t) u c)
            | None \<Rightarrow>
                ctx_JSON StatusOK
                  \<lparr>Code = NotAuthorized, Message = ''Not Authorized'', Data = None\<rparr>
                  (ctx_Abort c)))"

section \<open>LoginHandle\<close>

text \<open>
  Modelled from the spec: \<^verbatim>\<open>utils.Containuser\<close> is called by LoginHandle and is not
  part of server.go. The spec describes the check as an exact string match of the
  presented token against the configured allow-list of known identities.
\<close>

fun Containuser :: "string list \<Rightarrow> string \<Rightarrow> bool" where
  "Containuser [] token = False"
| "Containuser (u # users) token = (if u = token then True else Containuser users token)"

text \<open>
  \<^verbatim>\<open>LoginHandle\<close>. The allow-list returned by \<^verbatim>\<open>GetUsers()\<close> and the string produced by
  \<^verbatim>\<open>utils.RandString(42)\<close> are arguments. The server's session map and the context are
  returned updated. An error of \<^verbatim>\<open>session.Save()\<close> is only logged by the code, so it
  changes nothing here.
\<close>

definition LoginHandle ::
  "types_consts \<Rightarrow> string list \<Rightarrow> string \<Rightarrow> Server \<Rightarrow> Context \<Rightarrow> Server \<times> Context" where
  "LoginHandle t users rand s c =
     (case DecodedToken c of
        None \<Rightarrow>
          (s, ctx_JSON StatusOK \<lparr>Code = Failed, Message = ErrorMsg t, Data = None\<rparr> c)
      | Some token \<Rightarrow>
          if \<not> Containuser users token
          then (s, ctx_JSON StatusOK
                     \<lparr>Code = Failed, Message = ''Invalid user'', Data = None\<rparr> c)
          else
            (let sessionId = rand;
                 c1 = session_Set sessionId token c;
                 s1 = s\<lparr>ChatSession := (ChatSession s)(sessionId \<mapsto>
                        \<lparr>ClientIP = ctx_ClientIP c, Username = token,
                         SessionId = sessionId\<rparr>)\<rparr>
             in (s1, ctx_JSON StatusOK
                       \<lparr>Code = Success, Message = [], Data = Some sessionId\<rparr> c1)))"

section \<open>CredentialThrottle\<close>

text \<open>
  Modelled from the spec: \<^verbatim>\<open>TryAcquire\<close> of the CredentialThrottle is not in server.go,
  which only declares and allocates the map \<^verbatim>\<open>ApiKeyAccessStat\<close>. The spec describes a
  counter over the trailing window: reject when the number of acquisitions for the
  credential within the trailing \<^verbatim>\<open>windowMillis\<close> would exceed \<^verbatim>\<open>maxPerWindow\<close>, otherwise
  record the acquisition and allow. The counting strategy is the sliding log the spec
  names: per credential the times of the acquisitions still inside the window, the last
  use first; an entry is created on first use and rewritten on every allowed use.
\<close>

type_synonym CredentialThrottle = "string \<rightharpoonup> int list"

definition acquisitions :: "CredentialThrottle \<Rightarrow> string \<Rightarrow> int list" where
  "acquisitions st credentialId = (case st credentialId of None \<Rightarrow> [] | Some ts \<Rightarrow> ts)"

definition in_window :: "int \<Rightarrow> int \<Rightarrow> int list \<Rightarrow> int list" where
  "in_window nowMillis windowMillis ts = filter (\<lambda>t. nowMillis - t < windowMillis) ts"

definition TryAcquire ::
  "string \<Rightarrow> int \<Rightarrow> int \<Rightarrow> nat \<Rightarrow> CredentialThrottle \<Rightarrow> bool \<times> CredentialThrottle" where
  "TryAcquire credentialId nowMillis windowMillis maxPerWindow st =
     (let recent = in_window nowMillis windowMillis (acquisitions st credentialId) in
      if maxPerWindow < length recent + 1 then (False, st)
      else (True, st(credentialId \<mapsto> nowMillis # recent)))"

text \<open>\<open>n\<close> consecutive calls at one instant: the answers in order, and the final state.\<close>

fun TryAcquireTimes ::
  "nat \<Rightarrow> string \<Rightarrow> int \<Rightarrow> int \<Rightarrow> nat \<Rightarrow> CredentialThrottle \<Rightarrow> bool list \<times> CredentialThrottle" where
  "TryAcquireTimes 0 credentialId nowMillis windowMillis maxPerWindow st = ([], st)"
| "TryAcquireTimes (Suc n) credentialId nowMillis windowMillis maxPerWindow st =
     (case TryAcquire credentialId nowMillis windowMillis maxPerWindow st of
        (ok, st') \<Rightarrow>
          (case TryAcquireTimes n credentialId nowMillis windowMillis maxPerWindow st' of
             (oks, st'') \<Rightarrow> (ok # oks, st'')))"

section \<open>Sample inputs\<close>

definition consts0 :: types_consts where
  "consts0 = \<lparr>TokenName = ''ChatGPT-Token'', SessionKey = ''LOGIN_USER'',
              ErrorMsg = ''server error''\<rparr>"

definition server_on :: Server where
  "server_on = \<lparr>Config = \<lparr>EnableAuth = True, AccessKey = ''secret''\<rparr>,
                ChatSession = Map.empty, ApiKeyAccessStat = Map.empty,
                DebugMode = False\<rparr>"

definition server_off :: Server where
  "server_off = server_on\<lparr>Config := \<lparr>EnableAuth = False, AccessKey = ''secret''\<rparr>\<rparr>"

text \<open>Enforcement on, and the empty string configured as the administrative key.\<close>

definition server_nokey :: Server where
  "server_nokey = server_on\<lparr>Config := \<lparr>EnableAuth = True, AccessKey = []\<rparr>\<rparr>"

text \<open>A fresh request: no header, no query parameter, an undecodable body, an empty
  cookie session, nothing aborted or written yet.\<close>

definition request :: "string \<Rightarrow> string \<Rightarrow> Context" where
  "request path ip =
     \<lparr>Path = path, Header = Map.empty, QueryParams = Map.empty, RemoteIP = ip,
      DecodedToken = None, SessionValues = Map.empty, Keys = Map.empty,
      Aborted = False, NextCalled = False, Written = []\<rparr>"

definition login_request :: "string \<Rightarrow> string \<Rightarrow> Context" where
  "login_request token ip = (request ''/api/login'' ip)\<lparr>DecodedToken := Some token\<rparr>"

definition chat_request :: "string \<Rightarrow> string \<Rightarrow> Context" where
  "chat_request sid ip =
     (request ''/api/chat'' ip)\<lparr>QueryParams := [''sessionId'' \<mapsto> sid]\<rparr>"

text \<open>A request from 1.2.3.4 with session header \<open>sid\<close> and a cookie session that holds
  the login of alice under S1.\<close>

definition api_request :: "string \<Rightarrow> string \<Rightarrow> Context" where
  "api_request path sid =
     (request path ''1.2.3.4'')\<lparr>Header := [TokenName consts0 \<mapsto> sid],
                               SessionValues := [''S1'' \<mapsto> ''alice'']\<rparr>"

text \<open>The same request with the access-key header \<open>key\<close> added.\<close>

definition config_request :: "string \<Rightarrow> string \<Rightarrow> string \<Rightarrow> Context" where
  "config_request path sid key =
     (api_request path sid)\<lparr>Header := [TokenName consts0 \<mapsto> sid, ''ACCESS_KEY'' \<mapsto> key]\<rparr>"

text \<open>The server after alice has logged in from 1.2.3.4 and was given session S1, with
  enforcement on and off.\<close>

definition server_alice :: Server where
  "server_alice =
     fst (LoginHandle consts0 [''alice''] ''S1'' server_on (login_request ''alice'' ''1.2.3.4''))"

definition server_alice_off :: Server where
  "server_alice_off =
     fst (LoginHandle consts0 [''alice''] ''S1'' server_off (login_request ''alice'' ''1.2.3.4''))"

section \<open>Auxiliary facts\<close>

lemmas sample_defs = request_def login_request_def chat_request_def server_nokey_def
  api_request_def config_request_def server_on_def server_off_def server_alice_def
  server_alice_off_def consts0_def

lemmas ctx_defs = ctx_GetHeader_def ctx_Query_def ctx_ClientIP_def ctx_Next_def
  ctx_Abort_def ctx_JSON_def ctx_Set_def session_Get_def session_Set_def StatusOK_def

lemma HasPrefix_take: "HasPrefix s p = (take (length p) s = p)"
  by (induction s p rule: HasPrefix.induct) auto

lemma HasPrefix_config_api: "HasPrefix p ''/api/config'' \<Longrightarrow> HasPrefix p ''/api''"
  by (auto simp: HasPrefix_take dest: arg_cong [where f = "take 4"])

lemma HasPrefix_config_not_login: "HasPrefix p ''/api/config'' \<Longrightarrow> p \<noteq> ''/api/login''"
  by auto

lemma not_config_not_roles:
  "\<not> HasPrefix p ''/api/config'' \<Longrightarrow> p \<noteq> ''/api/config/chat-roles/get''"
  by auto

lemma in_window_replicate:
  "0 < w \<Longrightarrow> in_window now w (replicate k now) = replicate k now"
  by (simp add: in_window_def)

lemma TryAcquire_below:
  assumes "0 < w" "acquisitions st cred = replicate k now" "k < m"
  shows "TryAcquire cred now w m st = (True, st(cred \<mapsto> replicate (Suc k) now))"
  using assms by (simp add: TryAcquire_def in_window_replicate)

lemma TryAcquire_full:
  assumes "0 < w" "acquisitions st cred = replicate k now" "m \<le> k"
  shows "TryAcquire cred now w m st = (False, st)"
  using assms by (simp add: TryAcquire_def in_window_replicate)

lemma acquisitions_upd: "acquisitions (st(cred \<mapsto> ts)) cred = ts"
  by (simp add: acquisitions_def)

text \<open>Calls at one instant on a log of \<open>k\<close> uses at that instant: the first \<open>m - k\<close>
  are allowed, every later one is refused, and the log never exceeds \<open>m\<close> entries.\<close>

lemma TryAcquireTimes_same_instant:
  assumes "0 < w"
  shows "acquisitions st cred = replicate k now \<Longrightarrow> k \<le> m \<Longrightarrow>
    fst (TryAcquireTimes n cred now w m st)
      = replicate (min n (m - k)) True @ replicate (n - (m - k)) False
    \<and> acquisitions (snd (TryAcquireTimes n cred now w m st)) cred
      = replicate (min (k + n) m) now"
proof (induction n arbitrary: st k)
  case 0
  then show ?case by simp
next
  case (Suc n)
  show ?case
  proof (cases "k < m")
    case True
    define st1 where "st1 = st(cred \<mapsto> replicate (Suc k) now)"
    have step: "TryAcquire cred now w m st = (True, st1)"
      unfolding st1_def using assms Suc.prems(1) True by (rule TryAcquire_below)
    have acq: "acquisitions st1 cred = replicate (Suc k) now"
      unfolding st1_def by (rule acquisitions_upd)
    have le: "Suc k \<le> m" using True by simp
    note ih = Suc.IH [OF acq le]
    have m: "m - k = Suc (m - Suc k)" using True by simp
    show ?thesis
      using ih by (simp add: step m case_prod_beta)
  next
    case False
    with Suc.prems have km: "k = m" by simp
    have step: "TryAcquire cred now w m st = (False, st)"
      using assms Suc.prems(1) by (rule TryAcquire_full) (simp add: km)
    note ih = Suc.IH [OF Suc.prems]
    show ?thesis
      using ih by (simp add: step km case_prod_beta)
  qed
qed

lemma TryAcquireTimes_Suc:
  "TryAcquireTimes (Suc n) cred now w m st =
     (fst (TryAcquire cred now w m st)
        # fst (TryAcquireTimes n cred now w m (snd (TryAcquire cred now w m st))),
      snd (TryAcquireTimes n cred now w m (snd (TryAcquire cred now w m st))))"
  by (simp add: case_prod_beta)

lemma TryAcquire_after_window:
  "acquisitions st cred = replicate k now \<Longrightarrow> now + w \<le> later \<Longrightarrow> 0 < m \<Longrightarrow>
   fst (TryAcquire cred later w m st)"
  by (simp add: TryAcquire_def in_window_def)

section \<open>The realtime channel is bound to the login address\<close>

text \<open>
  C1, as the claim states it, fails when \<^verbatim>\<open>EnableAuth\<close> is off: the first branch of the
  middleware lets the request through before the session map is read. With enforcement off
  and S1 registered for 1.2.3.4, a channel request for S1 from 5.6.7.8 and one for the
  unregistered S9 both reach the handlers.
\<close>

theorem chat_gate_counterexample:
  "ChatSession server_alice_off ''S1''
     = Some \<lparr>ClientIP = ''1.2.3.4'', Username = ''alice'', SessionId = ''S1''\<rparr>
   \<and> AuthorizeMiddleware consts0 server_alice_off (chat_request ''S1'' ''5.6.7.8'')
     = ctx_Next (chat_request ''S1'' ''5.6.7.8'')
   \<and> ChatSession server_alice_off ''S9'' = None
   \<and> AuthorizeMiddleware consts0 server_alice_off (chat_request ''S9'' ''1.2.3.4'')
     = ctx_Next (chat_request ''S9'' ''1.2.3.4'')"
  by (simp add: AuthorizeMiddleware_def LoginHandle_def sample_defs ctx_defs Let_def)

text \<open>
  C1, amended: with \<^verbatim>\<open>EnableAuth\<close> on. After a login from the address of \<open>cl\<close> that was
  given the session identifier \<open>sid\<close>, a request to \<^verbatim>\<open>/api/chat\<close> whose query carries \<open>sid\<close>
  is passed on (\<^verbatim>\<open>c.Next()\<close>) when its address is the login address and is aborted, with
  nothing written, when it is any other address; a request whose \<^verbatim>\<open>sessionId\<close> is not in
  the session map is aborted with nothing written.
\<close>

theorem chat_gate_bound_address:
  "EnableAuth (Config s) \<Longrightarrow> DecodedToken cl = Some token \<Longrightarrow> Containuser users token \<Longrightarrow>
   Path c = ''/api/chat'' \<Longrightarrow>
   (ctx_Query c ''sessionId'' = sid \<longrightarrow>
      AuthorizeMiddleware t (fst (LoginHandle t users sid s cl)) c
        = (if ctx_ClientIP c = ctx_ClientIP cl then ctx_Next c else ctx_Abort c))
   \<and> (ChatSession (fst (LoginHandle t users sid s cl)) (ctx_Query c ''sessionId'') = None \<longrightarrow>
      AuthorizeMiddleware t (fst (LoginHandle t users sid s cl)) c = ctx_Abort c)"
  by (simp add: AuthorizeMiddleware_def LoginHandle_def Let_def)

theorem chat_gate_bound_address_witness:
  "AuthorizeMiddleware consts0 server_alice (chat_request ''S1'' ''1.2.3.4'')
     = ctx_Next (chat_request ''S1'' ''1.2.3.4'')
   \<and> AuthorizeMiddleware consts0 server_alice (chat_request ''S1'' ''5.6.7.8'')
     = ctx_Abort (chat_request ''S1'' ''5.6.7.8'')
   \<and> AuthorizeMiddleware consts0 server_alice (chat_request ''S9'' ''1.2.3.4'')
     = ctx_Abort (chat_request ''S9'' ''1.2.3.4'')
   \<and> Written (ctx_Abort (chat_request ''S9'' ''1.2.3.4'')) = []"
  using chat_gate_bound_address [of server_on "login_request ''alice'' ''1.2.3.4''" "''alice''"
      "[''alice'']" "chat_request ''S1'' ''1.2.3.4''" "''S1''" consts0]
    chat_gate_bound_address [of server_on "login_request ''alice'' ''1.2.3.4''" "''alice''"
      "[''alice'']" "chat_request ''S1'' ''5.6.7.8''" "''S1''" consts0]
    chat_gate_bound_address [of server_on "login_request ''alice'' ''1.2.3.4''" "''alice''"
      "[''alice'']" "chat_request ''S9'' ''1.2.3.4''" "''S1''" consts0]
  by (simp add: sample_defs ctx_defs LoginHandle_def Let_def)

section \<open>The administrative namespace\<close>

text \<open>
  C2, as the claim states it, fails on two inputs. With \<^verbatim>\<open>EnableAuth\<close> off, a request to
  \<^verbatim>\<open>/api/config/set\<close> with no access-key header is passed on although the configured key
  is \<^verbatim>\<open>secret\<close>. With \<^verbatim>\<open>EnableAuth\<close> on and the empty string configured as the key, a
  request to \<^verbatim>\<open>/api/config/set\<close> with no access-key header is passed on as well, because
  \<^verbatim>\<open>c.GetHeader\<close> gives the empty string for a missing header.
\<close>

theorem config_gate_counterexample:
  "AuthorizeMiddleware consts0 server_off (request ''/api/config/set'' ''1.2.3.4'')
     = ctx_Next (request ''/api/config/set'' ''1.2.3.4'')
   \<and> ctx_GetHeader (request ''/api/config/set'' ''1.2.3.4'') ''ACCESS_KEY''
       \<noteq> AccessKey (Config server_off)
   \<and> HasPrefix ''/api/config/set'' ''/api/config''
   \<and> EnableAuth (Config server_nokey)
   \<and> Header (request ''/api/config/set'' ''1.2.3.4'') ''ACCESS_KEY'' = None
   \<and> AuthorizeMiddleware consts0 server_nokey (request ''/api/config/set'' ''1.2.3.4'')
     = ctx_Next (request ''/api/config/set'' ''1.2.3.4'')"
  by (simp add: AuthorizeMiddleware_def sample_defs ctx_defs)

text \<open>
  C2, amended: with \<^verbatim>\<open>EnableAuth\<close> on. For a request whose path begins with
  \<^verbatim>\<open>/api/config\<close>, the role-listing path apart: when the \<^verbatim>\<open>ACCESS_KEY\<close> header is present,
  the request is passed on exactly when the header's value equals the configured key, and
  is otherwise aborted and answered with code \<^verbatim>\<open>NotAuthorized\<close>; when the header is missing
  and the configured key is not the empty string, the request is aborted and answered with
  code \<^verbatim>\<open>NotAuthorized\<close>. The cookie session and the session map play no part in the
  outcome. Nothing is said about a missing header when the configured key is empty.
\<close>

theorem config_gate_access_key:
  "EnableAuth (Config s) \<Longrightarrow> HasPrefix (Path c) ''/api/config'' \<Longrightarrow>
   Path c \<noteq> ''/api/config/chat-roles/get'' \<Longrightarrow>
   (Header c ''ACCESS_KEY'' = Some k \<longrightarrow>
      AuthorizeMiddleware t s c =
        (if k = AccessKey (Config s) then ctx_Next c
         else ctx_JSON StatusOK
                \<lparr>Code = NotAuthorized, Message = ''No Permissions'', Data = None\<rparr>
                (ctx_Abort c)))
   \<and> (Header c ''ACCESS_KEY'' = None \<longrightarrow> AccessKey (Config s) \<noteq> [] \<longrightarrow>
      AuthorizeMiddleware t s c =
        ctx_JSON StatusOK
          \<lparr>Code = NotAuthorized, Message = ''No Permissions'', Data = None\<rparr>
          (ctx_Abort c))"
  using HasPrefix_config_api [of "Path c"] HasPrefix_config_not_login [of "Path c"]
  by (auto simp: AuthorizeMiddleware_def ctx_GetHeader_def)

theorem config_gate_access_key_witness:
  "AuthorizeMiddleware consts0 server_on (config_request ''/api/config/set'' ''S9'' ''secret'')
     = ctx_Next (config_request ''/api/config/set'' ''S9'' ''secret'')
   \<and> AuthorizeMiddleware consts0 server_on (config_request ''/api/config/set'' ''S1'' ''guess'')
     = ctx_JSON StatusOK \<lparr>Code = NotAuthorized, Message = ''No Permissions'', Data = None\<rparr>
         (ctx_Abort (config_request ''/api/config/set'' ''S1'' ''guess''))
   \<and> Header (api_request ''/api/config/set'' ''S1'') ''ACCESS_KEY'' = None
   \<and> AuthorizeMiddleware consts0 server_on (api_request ''/api/config/set'' ''S1'')
     = ctx_JSON StatusOK \<lparr>Code = NotAuthorized, Message = ''No Permissions'', Data = None\<rparr>
         (ctx_Abort (api_request ''/api/config/set'' ''S1''))"
  using config_gate_access_key [of server_on
      "config_request ''/api/config/set'' ''S9'' ''secret''" "''secret''" consts0]
    config_gate_access_key [of server_on
      "config_request ''/api/config/set'' ''S1'' ''guess''" "''guess''" consts0]
    config_gate_access_key [of server_on "api_request ''/api/config/set'' ''S1''" "[]" consts0]
  by (simp add: sample_defs ctx_defs)

section \<open>A rejected login\<close>

text \<open>
  C3. A login whose token is not on the allow-list leaves the server, and so its session
  map, as it was, stores nothing in the cookie session, and answers with a code other
  than \<^verbatim>\<open>Success\<close> and no session identifier.
\<close>

theorem login_rejected_registry_unchanged:
  "DecodedToken c = Some token \<Longrightarrow> \<not> Containuser users token \<Longrightarrow>
   fst (LoginHandle t users rand s c) = s
   \<and> ChatSession (fst (LoginHandle t users rand s c)) = ChatSession s
   \<and> SessionValues (snd (LoginHandle t users rand s c)) = SessionValues c
   \<and> Code (snd (last (Written (snd (LoginHandle t users rand s c))))) \<noteq> Success
   \<and> Data (snd (last (Written (snd (LoginHandle t users rand s c))))) = None"
  by (simp add: LoginHandle_def ctx_JSON_def)

theorem login_rejected_registry_unchanged_witness:
  "ChatSession (fst (LoginHandle consts0 [''alice''] ''S2'' server_alice
       (login_request ''bob'' ''5.6.7.8'')))
     = ChatSession server_alice
   \<and> ChatSession server_alice ''S2'' = None
   \<and> Code (snd (last (Written (snd (LoginHandle consts0 [''alice''] ''S2'' server_alice
         (login_request ''bob'' ''5.6.7.8'')))))) \<noteq> Success"
  using login_rejected_registry_unchanged [of "login_request ''bob'' ''5.6.7.8''" "''bob''"
      "[''alice'']" consts0 "''S2''" server_alice]
  by (simp add: sample_defs ctx_defs LoginHandle_def Let_def)

text \<open>
  C4, as the claim states it, fails: the answer to a token that is not on the allow-list
  carries the code \<^verbatim>\<open>Failed\<close>, not \<^verbatim>\<open>NotAuthorized\<close>; it is the code the handler also
  gives when the body cannot be decoded.
\<close>

theorem login_rejected_code_counterexample:
  "Written (snd (LoginHandle consts0 [''alice''] ''S2'' server_on
       (login_request ''bob'' ''5.6.7.8'')))
     = [(200, \<lparr>Code = Failed, Message = ''Invalid user'', Data = None\<rparr>)]
   \<and> Failed \<noteq> NotAuthorized
   \<and> map (Code \<circ> snd) (Written (snd (LoginHandle consts0 [''alice''] ''S2'' server_on
         (request ''/api/login'' ''5.6.7.8'')))) = [Failed]"
  by (simp add: LoginHandle_def sample_defs ctx_defs)

text \<open>
  C4, amended: a login whose token is not on the allow-list is answered with status 200
  and the envelope of code \<^verbatim>\<open>Failed\<close>, message \<^verbatim>\<open>Invalid user\<close> and no data.
\<close>

theorem login_rejected_code_failed:
  "DecodedToken c = Some token \<Longrightarrow> \<not> Containuser users token \<Longrightarrow>
   Written (snd (LoginHandle t users rand s c))
     = Written c @ [(StatusOK, \<lparr>Code = Failed, Message = ''Invalid user'', Data = None\<rparr>)]"
  by (simp add: LoginHandle_def ctx_JSON_def)

theorem login_rejected_code_failed_witness:
  "Written (snd (LoginHandle consts0 [''alice'', ''carol''] ''S3'' server_on
      (login_request ''bob'' ''5.6.7.8'')))
     = [(StatusOK, \<lparr>Code = Failed, Message = ''Invalid user'', Data = None\<rparr>)]"
  using login_rejected_code_failed [of "login_request ''bob'' ''5.6.7.8''" "''bob''"
      "[''alice'', ''carol'']" consts0 "''S3''" server_on]
  by (simp add: login_request_def request_def)

section \<open>The credential throttle\<close>

text \<open>
  C5. For a credential with no recorded use inside the window, with a budget of 15 per
  60000 ms: of 16 consecutive calls at one instant the first 15 are allowed and the 16th
  is refused, and a call once 60000 ms or more have passed is allowed again.
\<close>

theorem throttle_fifteen_per_minute:
  assumes fresh: "in_window now 60000 (acquisitions st cred) = []"
    and later: "now + 60000 \<le> later"
  shows "fst (TryAcquireTimes 16 cred now 60000 15 st) = replicate 15 True @ [False]
    \<and> fst (TryAcquire cred later 60000 15 (snd (TryAcquireTimes 16 cred now 60000 15 st)))"
proof -
  define st1 where "st1 = st(cred \<mapsto> [now])"
  define r where "r = TryAcquireTimes 15 cred now 60000 15 st1"
  have first: "TryAcquire cred now 60000 15 st = (True, st1)"
    using fresh by (simp add: TryAcquire_def st1_def)
  have acq1: "acquisitions st1 cred = replicate 1 now"
    by (simp add: st1_def acquisitions_def)
  have run: "fst r = replicate 14 True @ [False] \<and> acquisitions (snd r) cred = replicate 15 now"
    using TryAcquireTimes_same_instant [of 60000 st1 cred 1 now 15 15] acq1
    by (simp add: r_def)
  have all: "TryAcquireTimes 16 cred now 60000 15 st = (True # fst r, snd r)"
    using TryAcquireTimes_Suc [of 15 cred now 60000 15 st] by (simp add: first r_def)
  have again: "fst (TryAcquire cred later 60000 15 (snd r))"
    using TryAcquire_after_window [of "snd r" cred 15 now 60000 later 15] run later
    by simp
  have rep: "replicate 15 True = True # replicate 14 True"
    by (simp add: numeral_eq_Suc)
  show ?thesis
    using run again by (simp add: all rep)
qed

theorem throttle_fifteen_per_minute_witness:
  "fst (TryAcquireTimes 16 ''sk-1'' 1000 60000 15 Map.empty) = replicate 15 True @ [False]
   \<and> fst (TryAcquire ''sk-1'' 61000 60000 15
        (snd (TryAcquireTimes 16 ''sk-1'' 1000 60000 15 Map.empty)))"
  using throttle_fifteen_per_minute [of 1000 Map.empty "''sk-1''" 61000]
  by (simp add: in_window_def acquisitions_def)

section \<open>The session header\<close>

text \<open>
  C7, as the claim states it, fails when \<^verbatim>\<open>EnableAuth\<close> is off: a request to
  \<^verbatim>\<open>/api/session/get\<close> with no session data is passed on, and one whose session data is
  present is passed on with no identity attached to the context.
\<close>

theorem session_gate_counterexample:
  "AuthorizeMiddleware consts0 server_off (request ''/api/session/get'' ''1.2.3.4'')
     = ctx_Next (request ''/api/session/get'' ''1.2.3.4'')
   \<and> SessionValues (request ''/api/session/get'' ''1.2.3.4'')
        (ctx_GetHeader (request ''/api/session/get'' ''1.2.3.4'') (TokenName consts0)) = None
   \<and> Keys (AuthorizeMiddleware consts0 server_off (api_request ''/api/session/get'' ''S1''))
        (SessionKey consts0) = None
   \<and> SessionValues (api_request ''/api/session/get'' ''S1'')
        (ctx_GetHeader (api_request ''/api/session/get'' ''S1'') (TokenName consts0))
       = Some ''alice''"
  by (simp add: AuthorizeMiddleware_def sample_defs ctx_defs)

text \<open>
  C7, amended: with \<^verbatim>\<open>EnableAuth\<close> on. A request to a path under \<^verbatim>\<open>/api\<close> that is neither
  the login path, nor under \<^verbatim>\<open>/api/config\<close>, nor \<^verbatim>\<open>/api/chat\<close> is decided by the cookie
  session's value for the session header: when there is one, it is stored in the context
  under \<^verbatim>\<open>SessionKey\<close> and the request is passed on; when there is none, the request is
  aborted, \<^verbatim>\<open>c.Next()\<close> is not called, and the answer has code \<^verbatim>\<open>NotAuthorized\<close>.
\<close>

theorem session_gate_header_lookup:
  "EnableAuth (Config s) \<Longrightarrow> HasPrefix (Path c) ''/api'' \<Longrightarrow> Path c \<noteq> ''/api/login'' \<Longrightarrow>
   \<not> HasPrefix (Path c) ''/api/config'' \<Longrightarrow> Path c \<noteq> ''/api/chat'' \<Longrightarrow>
   AuthorizeMiddleware t s c =
     (case SessionValues c (ctx_GetHeader c (TokenName t)) of
        Some u \<Rightarrow> ctx_Next (ctx_Set (SessionKey t) u c)
      | None \<Rightarrow> ctx_JSON StatusOK
                  \<lparr>Code = NotAuthorized, Message = ''Not Authorized'', Data = None\<rparr>
                  (ctx_Abort c))"
  using not_config_not_roles [of "Path c"]
  by (simp add: AuthorizeMiddleware_def session_Get_def)

theorem session_gate_header_lookup_witness:
  "AuthorizeMiddleware consts0 server_on (api_request ''/api/session/get'' ''S1'')
     = ctx_Next (ctx_Set (SessionKey consts0) ''alice'' (api_request ''/api/session/get'' ''S1''))
   \<and> AuthorizeMiddleware consts0 server_on (api_request ''/api/session/get'' ''S7'')
     = ctx_JSON StatusOK \<lparr>Code = NotAuthorized, Message = ''Not Authorized'', Data = None\<rparr>
         (ctx_Abort (api_request ''/api/session/get'' ''S7''))
   \<and> \<not> NextCalled (ctx_JSON StatusOK
           \<lparr>Code = NotAuthorized, Message = ''Not Authorized'', Data = None\<rparr>
           (ctx_Abort (api_request ''/api/session/get'' ''S7'')))"
  using session_gate_header_lookup [of server_on "api_request ''/api/session/get'' ''S1''" consts0]
    session_gate_header_lookup [of server_on "api_request ''/api/session/get'' ''S7''" consts0]
  by (simp add: sample_defs ctx_defs)

section \<open>Public paths and disabled enforcement\<close>

text \<open>
  C8. A request to the login endpoint passes the middleware whatever its headers are, in
  particular with no session header; and when \<^verbatim>\<open>EnableAuth\<close> is off every request passes.
  Passing means that the middleware only calls \<^verbatim>\<open>c.Next()\<close>: nothing is looked up, written
  or attached.
\<close>

theorem login_or_disabled_allowed:
  "Path c = ''/api/login'' \<or> \<not> EnableAuth (Config s) \<Longrightarrow>
   AuthorizeMiddleware t s c = ctx_Next c"
  by (auto simp: AuthorizeMiddleware_def)

theorem login_or_disabled_allowed_witness:
  "AuthorizeMiddleware consts0 server_on (request ''/api/login'' ''1.2.3.4'')
     = ctx_Next (request ''/api/login'' ''1.2.3.4'')
   \<and> Header (request ''/api/login'' ''1.2.3.4'') (TokenName consts0) = None
   \<and> AuthorizeMiddleware consts0 server_off (request ''/api/session/get'' ''1.2.3.4'')
     = ctx_Next (request ''/api/session/get'' ''1.2.3.4'')"
  using login_or_disabled_allowed [of "request ''/api/login'' ''1.2.3.4''" server_on consts0]
    login_or_disabled_allowed [of "request ''/api/session/get'' ''1.2.3.4''" server_off consts0]
  by (simp add: request_def server_off_def server_on_def)

section \<open>Paths outside /api\<close>

text \<open>
  C10. A request whose path does not begin with \<^verbatim>\<open>/api\<close> passes the middleware with no check,
  also when \<^verbatim>\<open>EnableAuth\<close> is on.
\<close>

theorem outside_api_allowed:
  "\<not> HasPrefix (Path c) ''/api'' \<Longrightarrow> AuthorizeMiddleware t s c = ctx_Next c"
  by (simp add: AuthorizeMiddleware_def)

theorem outside_api_allowed_witness:
  "EnableAuth (Config server_on)
   \<and> AuthorizeMiddleware consts0 server_on (request ''/hello'' ''1.2.3.4'')
     = ctx_Next (request ''/hello'' ''1.2.3.4'')"
  using outside_api_allowed [of "request ''/hello'' ''1.2.3.4''" consts0 server_on]
  by (simp add: request_def server_on_def)

end
